theory Spec2Isabelle
  imports Main "HOL-Library.AList" "HOL-Library.Char_ord" "HOL-Library.List_Lexorder"
    "HOL-Library.Sublist"
begin

section \<open>Python strings\<close>

text \<open>
  A Python \<open>str\<close> is a sequence of code points; it is modelled as a \<^typ>\<open>string\<close>, a
  \<^typ>\<open>char\<close> being a code point below 256 (Basic Latin and Latin-1 Supplement). The
  helpers below are the built-in methods on such strings: \<open>str.strip\<close>, \<open>str.lower\<close>,
  \<open>str.split\<close>, \<open>str.splitlines\<close>, \<open>str.replace\<close>, \<open>in\<close>.
\<close>

text \<open>
  The code points below 256 for which \<open>str.isspace\<close> holds, which \<open>str.strip\<close> removes:
  the space, the controls \<open>0x09\<close> to \<open>0x0D\<close>, the four separators \<open>0x1C\<close> to \<open>0x1F\<close>, the next-line
  control \<open>0x85\<close> and the no-break space \<open>0xA0\<close>.
\<close>

definition is_space :: "char \<Rightarrow> bool" where
  "is_space c \<longleftrightarrow>
     c \<in> set [CHR '' '', CHR 0x09, CHR 0x0A, CHR 0x0B, CHR 0x0C, CHR 0x0D,
               CHR 0x1C, CHR 0x1D, CHR 0x1E, CHR 0x1F, CHR 0x85, CHR 0xA0]"

definition strip_chars :: "(char \<Rightarrow> bool) \<Rightarrow> string \<Rightarrow> string" where
  "strip_chars P s = rev (dropWhile P (rev (dropWhile P s)))"

definition strip :: "string \<Rightarrow> string" where
  "strip s = strip_chars is_space s"

text \<open>
  \<open>str.lower\<close> on one code point below 256: the letters \<open>A\<close> to \<open>Z\<close> and the Latin-1
  capitals \<open>0xC0\<close> to \<open>0xDE\<close> (the multiplication sign \<open>0xD7\<close> is not a letter) move to
  the letter 32 code points above; every other code point below 256 is kept.
\<close>

definition lower_char :: "char \<Rightarrow> char" where
  "lower_char c =
     (case map_of (zip ''ABCDEFGHIJKLMNOPQRSTUVWXYZ'' ''abcdefghijklmnopqrstuvwxyz'') c of
        Some d \<Rightarrow> d
      | None \<Rightarrow>
          (if (0xC0 :: nat) \<le> of_char c \<and> of_char c \<le> (0xDE :: nat) \<and> of_char c \<noteq> (0xD7 :: nat)
           then char_of (of_char c + (32 :: nat))
           else c))"

definition lower :: "string \<Rightarrow> string" where
  "lower s = map lower_char s"

text \<open>\<open>sep.join(parts)\<close>.\<close>

fun join :: "string \<Rightarrow> string list \<Rightarrow> string" where
  "join sep [] = []"
| "join sep [x] = x"
| "join sep (x # y # ys) = x @ sep @ join sep (y # ys)"

text \<open>\<open>s.split(d)\<close> for a one-character separator: never the empty list.\<close>

fun split_on :: "char \<Rightarrow> string \<Rightarrow> string list" where
  "split_on d [] = [[]]"
| "split_on d (c # cs) =
     (if c = d then [] # split_on d cs
      else (case split_on d cs of [] \<Rightarrow> [[c]] | w # ws \<Rightarrow> (c # w) # ws))"

text \<open>\<open>needle in hay\<close> on strings.\<close>

fun contains :: "string \<Rightarrow> string \<Rightarrow> bool" where
  "contains needle [] = (needle = [])"
| "contains needle (c # cs) = (prefix needle (c # cs) \<or> contains needle cs)"

text \<open>\<open>s.replace(".md", "")\<close>: every occurrence, left to right.\<close>

fun remove_md :: "string \<Rightarrow> string" where
  "remove_md [] = []"
| "remove_md (c # cs) =
     (if prefix ''.md'' (c # cs) then remove_md (drop 2 cs) else c # remove_md cs)"

definition is_linebreak :: "char \<Rightarrow> bool" where
  "is_linebreak c \<longleftrightarrow>
     c \<in> set [CHR 0x0A, CHR 0x0B, CHR 0x0C, CHR 0x0D, CHR 0x1C, CHR 0x1D, CHR 0x1E, CHR 0x85]"

fun splitlines_from :: "string \<Rightarrow> string \<Rightarrow> string list" where
  "splitlines_from acc [] = (if acc = [] then [] else [rev acc])"
| "splitlines_from acc (c # cs) =
     (if c = CHR 0x0D \<and> (case cs of [] \<Rightarrow> False | d # _ \<Rightarrow> d = CHR 0x0A)
      then rev acc # splitlines_from [] (tl cs)
      else if is_linebreak c then rev acc # splitlines_from [] cs
      else splitlines_from (c # acc) cs)"

definition splitlines :: "string \<Rightarrow> string list" where
  "splitlines s = splitlines_from [] s"


section \<open>The filesystem under the data root\<close>

text \<open>
  The data root holds the directories \<open>docs\<close> and \<open>trash\<close>; \<open>ensure_dirs_and_repo\<close>
  creates them, so both exist whenever an operation runs and they are the two fields of
  the store. A directory is the list of its entries in the order \<open>os.listdir\<close> reports
  them. Every node carries its last-modified time in microseconds since the epoch.
  Slugs and entry names are single path components; \<open>plain_name\<close> says so.
  Operations fail only for structural reasons (a file where a directory is needed and
  the like); the one exception is the removal of a trash entry in \<open>clean_trash\<close>, whose
  failure is an argument.
\<close>

datatype node = File (mtime: int) (data: string) | Dir (mtime: int) (entries: "(string \<times> node) list")

type_synonym dir = "(string \<times> node) list"

record store =
  docs :: dir
  trash :: dir

datatype pyerror = OSError | ShutilError | ParseError | TypeError | AttributeError | ValueError

definition plain_name :: "string \<Rightarrow> bool" where
  "plain_name s \<longleftrightarrow> s \<noteq> [] \<and> s \<noteq> ''.'' \<and> s \<noteq> ''..'' \<and> CHR ''/'' \<notin> set s"

text \<open>
  The path helpers \<open>_doc_dir\<close>, \<open>_doc_md_path_new\<close> and \<open>_doc_md_path_legacy\<close>, each
  composed with the lookup of the path: the node at \<open>docs/<slug>\<close>, at
  \<open>docs/<slug>/doc.md\<close> and at \<open>docs/<slug>.md\<close>, if any.
\<close>

definition doc_dir :: "store \<Rightarrow> string \<Rightarrow> node option" where
  "doc_dir st slug = map_of (docs st) slug"

definition doc_md_path_new :: "store \<Rightarrow> string \<Rightarrow> node option" where
  "doc_md_path_new st slug =
     (case doc_dir st slug of
        Some (Dir m es) \<Rightarrow> map_of es ''doc.md''
      | _ \<Rightarrow> None)"

definition doc_md_path_legacy :: "store \<Rightarrow> string \<Rightarrow> node option" where
  "doc_md_path_legacy st slug = map_of (docs st) (slug @ ''.md'')"

definition isdir :: "node option \<Rightarrow> bool" where
  "isdir p = (case p of Some (Dir m es) \<Rightarrow> True | _ \<Rightarrow> False)"

text \<open>
  Writing a regular file \<open>name\<close> with content \<open>d\<close> and modification time \<open>fm\<close> into a
  directory at time \<open>clk\<close>: a new entry touches the directory, an existing file is
  overwritten, an existing directory of that name cannot be opened for writing.
\<close>

definition put_file :: "int \<Rightarrow> int \<Rightarrow> string \<Rightarrow> string \<Rightarrow> node \<Rightarrow> pyerror + node" where
  "put_file clk fm name d target =
     (case target of
        File m c \<Rightarrow> Inl OSError
      | Dir m es \<Rightarrow>
          (case map_of es name of
             None \<Rightarrow> Inr (Dir clk (AList.update name (File fm d) es))
           | Some (File m' c') \<Rightarrow> Inr (Dir m (AList.update name (File fm d) es))
           | Some (Dir m' es') \<Rightarrow> Inl OSError))"

text \<open>\<open>os.makedirs(_doc_dir(slug), exist_ok=True)\<close>.\<close>

definition makedirs_doc :: "int \<Rightarrow> store \<Rightarrow> string \<Rightarrow> pyerror + store" where
  "makedirs_doc clk st slug =
     (case doc_dir st slug of
        None \<Rightarrow> Inr (st\<lparr>docs := AList.update slug (Dir clk []) (docs st)\<rparr>)
      | Some (Dir m es) \<Rightarrow> Inr st
      | Some (File m c) \<Rightarrow> Inl OSError)"

text \<open>
  \<open>shutil.copy2(legacy_path, new_path)\<close>: the source must be a regular file; where
  \<open>doc.md\<close> is itself a directory the copy goes into it under the source's base name.
  The copy keeps the source's modification time.
\<close>

definition copy2_legacy :: "int \<Rightarrow> store \<Rightarrow> string \<Rightarrow> pyerror + store" where
  "copy2_legacy clk st slug =
     (case doc_md_path_legacy st slug of
        Some (File fm c) \<Rightarrow>
          (case doc_dir st slug of
             Some (Dir m es) \<Rightarrow>
               (case map_of es ''doc.md'' of
                  Some (Dir m2 es2) \<Rightarrow>
                    (case put_file clk fm (slug @ ''.md'') c (Dir m2 es2) of
                       Inl e \<Rightarrow> Inl e
                     | Inr d2 \<Rightarrow>
                         Inr (st\<lparr>docs := AList.update slug
                                (Dir m (AList.update ''doc.md'' d2 es)) (docs st)\<rparr>))
                | _ \<Rightarrow>
                    (case put_file clk fm ''doc.md'' c (Dir m es) of
                       Inl e \<Rightarrow> Inl e
                     | Inr d \<Rightarrow> Inr (st\<lparr>docs := AList.update slug d (docs st)\<rparr>)))
           | _ \<Rightarrow> Inl OSError)
      | _ \<Rightarrow> Inl OSError)"

text \<open>
  \<open>shutil.move(src, dst)\<close> where \<open>dst\<close> names an entry of the directory \<open>d\<close> and \<open>base\<close>
  is the base name of \<open>src\<close>: a free name is a rename; an existing directory receives
  the source inside it unless it already holds that base name; an existing file is
  replaced by a file and refuses a directory. The result is the destination directory;
  the caller removes the source entry.
\<close>

definition shutil_move :: "int \<Rightarrow> string \<Rightarrow> node \<Rightarrow> string \<Rightarrow> dir \<Rightarrow> pyerror + dir" where
  "shutil_move clk base src dst d =
     (case map_of d dst of
        None \<Rightarrow> Inr (AList.update dst src d)
      | Some (Dir m es) \<Rightarrow>
          (if map_of es base \<noteq> None then Inl ShutilError
           else Inr (AList.update dst (Dir clk (AList.update base src es)) d))
      | Some (File m c) \<Rightarrow>
          (case src of
             File m' c' \<Rightarrow> Inr (AList.update dst src d)
           | Dir m' es' \<Rightarrow> Inl OSError))"

section \<open>Front matter\<close>

text \<open>
  A \<open>frontmatter.Post\<close>: the metadata dictionary (insertion ordered) and the body.
  Metadata values are strings or lists of strings.
\<close>

datatype mval = Str string | Lst "string list"

record post =
  metadata :: "(string \<times> mval) list"
  content :: string

text \<open>
  The libraries the storage layer calls and whose code is not part of the repository:
  \<open>slugify\<close> (python-slugify), \<open>frontmatter.loads\<close> and \<open>frontmatter.dumps\<close>
  (python-frontmatter; \<open>None\<close> is a raised parse or decoding error) and \<open>markdown\<close>
  with the extensions \<open>list_docs\<close> passes. They are arguments of the model.
\<close>

record extern =
  slugify :: "string \<Rightarrow> string"
  fm_loads :: "string \<Rightarrow> post option"
  fm_dumps :: "post \<Rightarrow> string"
  markdown :: "string \<Rightarrow> string"

text \<open>\<open>frontmatter.load(path)\<close>: the path must be a readable regular file.\<close>

definition fm_load :: "extern \<Rightarrow> node option \<Rightarrow> pyerror + post" where
  "fm_load X p =
     (case p of
        Some (File m c) \<Rightarrow> (case fm_loads X c of None \<Rightarrow> Inl ParseError | Some q \<Rightarrow> Inr q)
      | _ \<Rightarrow> Inl OSError)"

text \<open>Python truthiness of a metadata value, and \<open>post.get(key, default)\<close>.\<close>

fun truthy :: "mval \<Rightarrow> bool" where
  "truthy (Str s) = (s \<noteq> [])"
| "truthy (Lst l) = (l \<noteq> [])"

definition post_get :: "post \<Rightarrow> string \<Rightarrow> mval \<Rightarrow> mval" where
  "post_get p k dflt = (case map_of (metadata p) k of None \<Rightarrow> dflt | Some v \<Rightarrow> v)"

section \<open>Reading\<close>

text \<open>
  \<open>read_doc(slug)\<close> at clock reading \<open>clk\<close>: the store afterwards and the post, or
  \<open>None\<close>.
\<close>

definition read_legacy :: "extern \<Rightarrow> store \<Rightarrow> string \<Rightarrow> post option" where
  "read_legacy X st slug =
     (case fm_load X (doc_md_path_legacy st slug) of Inl e \<Rightarrow> None | Inr p \<Rightarrow> Some p)"

definition read_doc :: "extern \<Rightarrow> int \<Rightarrow> store \<Rightarrow> string \<Rightarrow> store \<times> post option" where
  "read_doc X clk st slug0 =
     (let slug = strip slug0 in
      case (if doc_md_path_new st slug \<noteq> None then fm_load X (doc_md_path_new st slug)
            else Inl OSError) of
        Inr p \<Rightarrow> (st, Some p)
      | Inl e \<Rightarrow>
          (if doc_md_path_legacy st slug \<noteq> None then
             (case makedirs_doc clk st slug of
                Inl e1 \<Rightarrow> (st, read_legacy X st slug)
              | Inr st1 \<Rightarrow>
                  (case copy2_legacy clk st1 slug of
                     Inl e2 \<Rightarrow> (st1, read_legacy X st1 slug)
                   | Inr st2 \<Rightarrow>
                       (case fm_load X (doc_md_path_new st2 slug) of
                          Inr p \<Rightarrow> (st2, Some p)
                        | Inl e3 \<Rightarrow> (st2, read_legacy X st2 slug))))
           else (st, None)))"

section \<open>The fallback of the listing on a front matter that does not parse\<close>

text \<open>
  \<open>FRONT_MATTER_RE = ^---\r?\n(.*?)\r?\n---\r?\n\<close> with \<open>re.DOTALL\<close>, matched at the
  start of the text: \<open>front_matter_match\<close> is group 1 of the match, if there is one.
\<close>

definition eol_prefix :: "string \<Rightarrow> string option" where
  "eol_prefix s =
     (if prefix [CHR 0x0D, CHR 0x0A] s then Some (drop 2 s)
      else if prefix [CHR 0x0A] s then Some (drop 1 s)
      else None)"

definition closes_block :: "string \<Rightarrow> bool" where
  "closes_block s =
     (case eol_prefix s of
        None \<Rightarrow> False
      | Some s1 \<Rightarrow> prefix ''---'' s1 \<and> eol_prefix (drop 3 s1) \<noteq> None)"

fun scan_block :: "string \<Rightarrow> string \<Rightarrow> string option" where
  "scan_block acc [] = (if closes_block [] then Some (rev acc) else None)"
| "scan_block acc (c # cs) =
     (if closes_block (c # cs) then Some (rev acc) else scan_block (c # acc) cs)"

definition front_matter_match :: "string \<Rightarrow> string option" where
  "front_matter_match raw =
     (if prefix ''---'' raw then
        (case eol_prefix (drop 3 raw) of None \<Rightarrow> None | Some rest \<Rightarrow> scan_block [] rest)
      else None)"

text \<open>
  The first line of the block that starts with \<open>title:\<close> in any case gives the title:
  what follows the first colon, stripped of white space, then of double quotes, then of
  single quotes.
\<close>

fun fm_title :: "string list \<Rightarrow> string option" where
  "fm_title [] = None"
| "fm_title (line # lines) =
     (if prefix ''title:'' (lower line)
      then Some (strip_chars (\<lambda>c. c = CHR 0x27)
                  (strip_chars (\<lambda>c. c = CHR 0x22)
                    (strip (drop 1 (dropWhile (\<lambda>c. c \<noteq> CHR 0x3A) line)))))
      else fm_title lines)"

text \<open>
  Otherwise the first line of the raw text that is not blank and does not start with
  \<open>---\<close>, without a leading \<open>#\<close> marker.
\<close>

fun first_line_title :: "string list \<Rightarrow> string option" where
  "first_line_title [] = None"
| "first_line_title (l # ls) =
     (let line = strip l in
      if line \<noteq> [] \<and> \<not> prefix ''---'' line
      then Some (if prefix ''# '' line then strip (drop 2 line) else line)
      else first_line_title ls)"

definition fallback_title :: "string \<Rightarrow> string" where
  "fallback_title raw =
     (let title = (case front_matter_match raw of
                     None \<Rightarrow> None
                   | Some fm \<Rightarrow> fm_title (splitlines fm))
      in case title of
           Some t \<Rightarrow> (if t \<noteq> [] then t
                      else (case first_line_title (splitlines raw) of None \<Rightarrow> [] | Some u \<Rightarrow> u))
         | None \<Rightarrow> (case first_line_title (splitlines raw) of None \<Rightarrow> [] | Some u \<Rightarrow> u))"

text \<open>
  \<open>_safe_frontmatter_load(path)\<close> on the node at \<open>path\<close>; \<open>dirbase\<close> is the base name of
  the directory of \<open>path\<close> and \<open>stem\<close> the file name without its extension.
\<close>

definition safe_frontmatter_load :: "extern \<Rightarrow> node option \<Rightarrow> string \<Rightarrow> string \<Rightarrow> post option" where
  "safe_frontmatter_load X p dirbase stem =
     (case p of
        Some (File m raw) \<Rightarrow>
          (case fm_loads X raw of
             Some q \<Rightarrow> Some q
           | None \<Rightarrow>
               (let t = fallback_title raw;
                    title = (if t \<noteq> [] then t else if dirbase \<noteq> [] then dirbase else stem)
                in Some \<lparr>metadata = [(''title'', Str title), (''description'', Str []),
                                      (''tags'', Lst []), (''icon_url'', Str [])],
                         content = []\<rparr>))
      | _ \<Rightarrow> None)"

section \<open>Listing\<close>

text \<open>One entry of the result of \<open>list_docs\<close>; a legacy entry has no \<open>body\<close> key.\<close>

record summary =
  s_slug :: string
  s_title :: mval
  s_description :: mval
  s_category :: mval
  s_tags :: "string list"
  s_icon_url :: mval
  s_cover_url :: mval
  s_created_by :: "mval option"
  s_created_at :: "mval option"
  s_last_edited_by :: "mval option"
  s_last_edited_at :: "mval option"
  s_body :: "string option"

text \<open>\<open>want_tags = set([t.strip().lower() for t in (tags or []) if t.strip()])\<close>.\<close>

definition want_tags :: "string list option \<Rightarrow> string set" where
  "want_tags tags =
     set (map (\<lambda>t. lower (strip t))
            (filter (\<lambda>t. strip t \<noteq> []) (case tags of None \<Rightarrow> [] | Some ts \<Rightarrow> ts)))"

text \<open>The tags of a post as the listing reads them: a string counts as one tag.\<close>

definition ptags :: "post \<Rightarrow> string list" where
  "ptags p =
     map strip (filter (\<lambda>t. strip t \<noteq> [])
       (case post_get p ''tags'' (Lst []) of Str s \<Rightarrow> [s] | Lst l \<Rightarrow> l))"

text \<open>\<open>(v or "")\<close> where a string is needed: joining a non-empty list raises.\<close>

fun or_empty :: "mval \<Rightarrow> pyerror + string" where
  "or_empty (Str s) = Inr s"
| "or_empty (Lst []) = Inr []"
| "or_empty (Lst (x # xs)) = Inl TypeError"

definition text_filter :: "string \<Rightarrow> string \<Rightarrow> post \<Rightarrow> pyerror + bool" where
  "text_filter q slug p =
     (if q = [] then Inr True
      else
        (case or_empty (post_get p ''title'' (Str slug)) of
           Inl e \<Rightarrow> Inl e
         | Inr t \<Rightarrow>
             (case or_empty (post_get p ''description'' (Str [])) of
                Inl e \<Rightarrow> Inl e
              | Inr d \<Rightarrow>
                  Inr (contains q
                        (lower (join '' '' [t, d, join '' '' (ptags p), content p]))))))"

definition tag_filter :: "string set \<Rightarrow> post \<Rightarrow> bool" where
  "tag_filter want p \<longleftrightarrow> want = {} \<or> set (map lower (ptags p)) \<inter> want \<noteq> {}"

text \<open>
  \<open>re.sub(r"(?is)<tag.*?>.*?</tag>", "", html)\<close>: \<open>match_len\<close> is the length of the match
  that starts at the head of the text, if there is one.
\<close>

fun find_after :: "string \<Rightarrow> string \<Rightarrow> nat option" where
  "find_after pat [] = (if pat = [] then Some 0 else None)"
| "find_after pat (c # cs) =
     (if prefix pat (lower (c # cs)) then Some (length pat)
      else (case find_after pat cs of None \<Rightarrow> None | Some n \<Rightarrow> Some (Suc n)))"

definition match_len :: "string \<Rightarrow> string \<Rightarrow> nat option" where
  "match_len tag s =
     (let opening = ''<'' @ tag in
      if prefix opening (lower s) then
        (case find_after ''>'' (drop (length opening) s) of
           None \<Rightarrow> None
         | Some i \<Rightarrow>
             (case find_after (''</'' @ tag @ ''>'') (drop (length opening + i) s) of
                None \<Rightarrow> None
              | Some j \<Rightarrow> Some (length opening + i + j)))
      else None)"

fun strip_tag :: "string \<Rightarrow> nat \<Rightarrow> string \<Rightarrow> string" where
  "strip_tag tag k [] = []"
| "strip_tag tag k (c # cs) =
     (if 0 < k then strip_tag tag (k - 1) cs
      else (case match_len tag (c # cs) of
              Some n \<Rightarrow> strip_tag tag (n - 1) cs
            | None \<Rightarrow> c # strip_tag tag 0 cs))"

definition body_preview :: "extern \<Rightarrow> string \<Rightarrow> string" where
  "body_preview X body =
     (if body = [] then []
      else
        (let clean = strip_tag ''style'' 0 (strip_tag ''script'' 0 (markdown X body))
         in take 600 clean @ (if 600 < length clean then ''...'' else [])))"

text \<open>Steps of the loop over the directories that hold a \<open>doc.md\<close>.\<close>

definition new_summary :: "extern \<Rightarrow> string \<Rightarrow> post \<Rightarrow> pyerror + summary" where
  "new_summary X slug p =
     (let description = post_get p ''description'' (Str []) in
      case (case description of
              Str s \<Rightarrow> Inr (if strip s \<noteq> [] then strip s else body_preview X (content p))
            | Lst [] \<Rightarrow> Inr (body_preview X (content p))
            | Lst (x # xs) \<Rightarrow> Inl AttributeError) of
        Inl e \<Rightarrow> Inl e
      | Inr final_desc \<Rightarrow>
          Inr \<lparr>s_slug = slug,
               s_title = post_get p ''title'' (Str slug),
               s_description = (if truthy description then description else Str final_desc),
               s_category = post_get p ''category'' (Str []),
               s_tags = ptags p,
               s_icon_url = (case map_of (metadata p) ''icon_url'' of
                               None \<Rightarrow> Str (''/docs/'' @ slug @ ''/logo.png'')
                             | Some v \<Rightarrow> (if truthy v then v
                                          else Str (''/docs/'' @ slug @ ''/logo.png''))),
               s_cover_url = post_get p ''cover_url'' (Str []),
               s_created_by = map_of (metadata p) ''created_by'',
               s_created_at = map_of (metadata p) ''created_at'',
               s_last_edited_by = map_of (metadata p) ''last_edited_by'',
               s_last_edited_at = map_of (metadata p) ''last_edited_at'',
               s_body = Some (content p)\<rparr>)"

definition new_item :: "extern \<Rightarrow> store \<Rightarrow> string \<Rightarrow> string set \<Rightarrow> string
    \<Rightarrow> pyerror + summary option" where
  "new_item X st q want slug =
     (if \<not> isdir (doc_dir st slug) \<or> doc_md_path_new st slug = None then Inr None
      else
        (case safe_frontmatter_load X (doc_md_path_new st slug) slug ''doc'' of
           None \<Rightarrow> Inr None
         | Some p \<Rightarrow>
             (case text_filter q slug p of
                Inl e \<Rightarrow> Inl e
              | Inr False \<Rightarrow> Inr None
              | Inr True \<Rightarrow>
                  (if \<not> tag_filter want p then Inr None
                   else (case new_summary X slug p of
                           Inl e \<Rightarrow> Inl e
                         | Inr d \<Rightarrow> Inr (Some d))))))"

fun list_new :: "extern \<Rightarrow> store \<Rightarrow> string \<Rightarrow> string set \<Rightarrow> string list \<Rightarrow> summary list
    \<Rightarrow> pyerror + summary list" where
  "list_new X st q want [] results = Inr results"
| "list_new X st q want (slug # rest) results =
     (case new_item X st q want slug of
        Inl e \<Rightarrow> Inl e
      | Inr None \<Rightarrow> list_new X st q want rest results
      | Inr (Some d) \<Rightarrow> list_new X st q want rest (results @ [d]))"

text \<open>Steps of the loop over the flat \<open>.md\<close> files.\<close>

definition legacy_summary :: "string \<Rightarrow> post \<Rightarrow> summary" where
  "legacy_summary slug p =
     \<lparr>s_slug = slug,
      s_title = post_get p ''title'' (Str slug),
      s_description = post_get p ''description'' (Str []),
      s_category = post_get p ''category'' (Str []),
      s_tags = ptags p,
      s_icon_url = post_get p ''icon_url'' (Str []),
      s_cover_url = post_get p ''cover_url'' (Str []),
      s_created_by = map_of (metadata p) ''created_by'',
      s_created_at = map_of (metadata p) ''created_at'',
      s_last_edited_by = map_of (metadata p) ''last_edited_by'',
      s_last_edited_at = map_of (metadata p) ''last_edited_at'',
      s_body = None\<rparr>"

definition legacy_item :: "extern \<Rightarrow> store \<Rightarrow> string \<Rightarrow> string set \<Rightarrow> string
    \<Rightarrow> pyerror + summary option" where
  "legacy_item X st q want legacy_slug =
     (case safe_frontmatter_load X (doc_md_path_legacy st legacy_slug) ''docs'' legacy_slug of
        None \<Rightarrow> Inr None
      | Some p \<Rightarrow>
          (case text_filter q legacy_slug p of
             Inl e \<Rightarrow> Inl e
           | Inr False \<Rightarrow> Inr None
           | Inr True \<Rightarrow>
               (if \<not> tag_filter want p then Inr None
                else Inr (Some (legacy_summary legacy_slug p)))))"

fun list_legacy :: "extern \<Rightarrow> store \<Rightarrow> string \<Rightarrow> string set \<Rightarrow> string list \<Rightarrow> summary list
    \<Rightarrow> pyerror + summary list" where
  "list_legacy X st q want [] results = Inr results"
| "list_legacy X st q want (f # rest) results =
     (if \<not> suffix ''.md'' f then list_legacy X st q want rest results
      else
        (let legacy_slug = take (length f - 3) f in
         if legacy_slug \<in> set (map s_slug results) then list_legacy X st q want rest results
         else
           (case legacy_item X st q want legacy_slug of
              Inl e \<Rightarrow> Inl e
            | Inr None \<Rightarrow> list_legacy X st q want rest results
            | Inr (Some d) \<Rightarrow> list_legacy X st q want rest (results @ [d]))))"

text \<open>
  \<open>list_docs(query, tags, nivel)\<close>: the summaries, or the exception a badly typed front
  matter raises.
\<close>

definition list_docs :: "extern \<Rightarrow> store \<Rightarrow> string \<Rightarrow> string list option \<Rightarrow> string
    \<Rightarrow> pyerror + summary list" where
  "list_docs X st query tags nivel =
     (let q = lower (strip query);
          want = want_tags tags
      in case list_new X st q want (sort (map fst (docs st))) [] of
           Inl e \<Rightarrow> Inl e
         | Inr results \<Rightarrow> list_legacy X st q want (sort (map fst (docs st))) results)"

section \<open>Writing\<close>

text \<open>
  The arguments of \<open>save_doc\<close>. A title or slug that is \<open>None\<close> and one that is empty
  take the same branches, so the title is a string; \<open>tags\<close> is a string, a list or
  \<open>None\<close>.
\<close>

datatype tags_arg = TagsNone | TagsStr string | TagsList "string list"

record save_args =
  a_title :: string
  a_body :: string
  a_author_name :: string
  a_author_email :: string
  a_slug :: "string option"
  a_icon_url :: "string option"
  a_description :: "string option"
  a_tags :: tags_arg
  a_category :: "string option"
  a_cover_url :: "string option"
  a_access_level :: "string option"

definition tags_list :: "tags_arg \<Rightarrow> string list option" where
  "tags_list t =
     (case t of
        TagsNone \<Rightarrow> None
      | TagsStr s \<Rightarrow> Some (map strip (filter (\<lambda>x. strip x \<noteq> []) (split_on (CHR '','') s)))
      | TagsList l \<Rightarrow> Some (map strip (filter (\<lambda>x. strip x \<noteq> []) l)))"

text \<open>\<open>if not slug: slug = slugify(title or "documento")\<close>.\<close>

definition resolve_slug :: "extern \<Rightarrow> save_args \<Rightarrow> string" where
  "resolve_slug X a =
     (case a_slug a of
        None \<Rightarrow> slugify X (if a_title a \<noteq> [] then a_title a else ''documento'')
      | Some s \<Rightarrow>
          (if s \<noteq> [] then s
           else slugify X (if a_title a \<noteq> [] then a_title a else ''documento'')))"

text \<open>
  The post \<open>save_doc\<close> loads to merge into: the canonical file, else the legacy file,
  else an empty post.
\<close>

definition load_existing :: "extern \<Rightarrow> store \<Rightarrow> string \<Rightarrow> pyerror + post" where
  "load_existing X st slug =
     (if doc_md_path_new st slug \<noteq> None then fm_load X (doc_md_path_new st slug)
      else if doc_md_path_legacy st slug \<noteq> None then fm_load X (doc_md_path_legacy st slug)
      else Inr \<lparr>metadata = [], content = []\<rparr>)"

text \<open>
  The metadata assignments of \<open>save_doc\<close>, one step for each statement, applied in the
  order of the source; \<open>now\<close> is the formatted local time.
\<close>

definition set_key :: "string \<Rightarrow> mval \<Rightarrow> post \<Rightarrow> post" where
  "set_key k v p = p\<lparr>metadata := AList.update k v (metadata p)\<rparr>"

definition has_key :: "post \<Rightarrow> string \<Rightarrow> bool" where
  "has_key p k \<longleftrightarrow> map_of (metadata p) k \<noteq> None"

text \<open>\<open>if k not in post: post[k] = v\<close> and \<open>if x is not None: post[k] = x\<close>.\<close>

definition default_key :: "string \<Rightarrow> mval \<Rightarrow> post \<Rightarrow> post" where
  "default_key k v p = (if \<not> has_key p k then set_key k v p else p)"

definition set_if_given :: "string \<Rightarrow> mval option \<Rightarrow> post \<Rightarrow> post" where
  "set_if_given k x p = (case x of None \<Rightarrow> p | Some v \<Rightarrow> set_key k v p)"

definition set_access_level :: "save_args \<Rightarrow> post \<Rightarrow> post" where
  "set_access_level a p =
     (case a_access_level a of
        Some l \<Rightarrow> set_key ''access_level'' (Str l) p
      | None \<Rightarrow> default_key ''access_level'' (Str ''d1'') p)"

definition set_title :: "string \<Rightarrow> save_args \<Rightarrow> post \<Rightarrow> post" where
  "set_title slug a p =
     set_key ''title''
       (if a_title a \<noteq> [] then Str (a_title a) else post_get p ''title'' (Str slug)) p"

definition set_description :: "save_args \<Rightarrow> post \<Rightarrow> post" where
  "set_description a p =
     (case a_description a of
        Some d \<Rightarrow> set_key ''description'' (Str d) p
      | None \<Rightarrow>
          (if \<not> truthy (post_get p ''description'' (Str []))
           then set_key ''description'' (Str (take 300 (strip (a_body a)))) p
           else p))"

definition merge_post :: "string \<Rightarrow> string \<Rightarrow> save_args \<Rightarrow> post \<Rightarrow> post" where
  "merge_post now slug a p0 =
     fold (\<lambda>step p. step p)
       [set_access_level a,
        set_title slug a,
        set_key ''last_edited_at'' (Str now),
        set_key ''last_edited_by'' (Str (a_author_name a)),
        default_key ''created_at'' (Str now),
        default_key ''created_by'' (Str (a_author_name a)),
        set_description a,
        set_if_given ''icon_url'' (map_option Str (a_icon_url a)),
        set_if_given ''cover_url'' (map_option Str (a_cover_url a)),
        set_if_given ''category'' (map_option Str (a_category a)),
        set_if_given ''tags'' (map_option Lst (tags_list (a_tags a))),
        (\<lambda>p. p\<lparr>content := a_body a\<rparr>)]
       p0"

text \<open>\<open>open(md_path_new, "w")\<close> and the write, at clock reading \<open>clk\<close>.\<close>

definition write_doc_md :: "int \<Rightarrow> store \<Rightarrow> string \<Rightarrow> string \<Rightarrow> pyerror + store" where
  "write_doc_md clk st slug text =
     (case doc_dir st slug of
        Some d \<Rightarrow>
          (case put_file clk clk ''doc.md'' text d of
             Inl e \<Rightarrow> Inl e
           | Inr d' \<Rightarrow> Inr (st\<lparr>docs := AList.update slug d' (docs st)\<rparr>))
      | None \<Rightarrow> Inl OSError)"

text \<open>
  \<open>save_doc\<close>: the store afterwards and the slug, or the exception raised. An exception
  leaves what was done before it.
\<close>

definition save_doc :: "extern \<Rightarrow> string \<Rightarrow> int \<Rightarrow> store \<Rightarrow> save_args \<Rightarrow> store \<times> (pyerror + string)" where
  "save_doc X now clk st a =
     (let slug = resolve_slug X a in
      case makedirs_doc clk st slug of
        Inl e \<Rightarrow> (st, Inl e)
      | Inr st1 \<Rightarrow>
          (case load_existing X st1 slug of
             Inl e \<Rightarrow> (st1, Inl e)
           | Inr p \<Rightarrow>
               (case write_doc_md clk st1 slug (fm_dumps X (merge_post now slug a p)) of
                  Inl e \<Rightarrow> (st1, Inl e)
                | Inr st2 \<Rightarrow> (st2, Inr slug))))"

section \<open>Trash and retention\<close>

text \<open>
  Times are counted in microseconds since 1970-01-01 00:00:00 UTC, as the modification
  times are. \<open>datetime.utcnow().strftime("%Y-%m-%d_%H-%M-%S")\<close> for such a time (in the
  years 1000 to 9999, where \<open>%Y\<close> has four digits): \<open>civil\<close> is the date of the proleptic
  Gregorian calendar on a day counted from 1970-01-01, and the fraction of a second is
  dropped.
\<close>

definition digit :: "int \<Rightarrow> char" where
  "digit k = ''0123456789'' ! nat (k mod 10)"

definition pad2 :: "int \<Rightarrow> string" where
  "pad2 n = [digit (n div 10), digit n]"

definition pad4 :: "int \<Rightarrow> string" where
  "pad4 n = [digit (n div 1000), digit (n div 100), digit (n div 10), digit n]"

definition civil :: "int \<Rightarrow> int \<times> int \<times> int" where
  "civil days =
     (let z = days + 719468;
          era = z div 146097;
          doe = z mod 146097;
          yoe = (doe - doe div 1460 + doe div 36524 - doe div 146096) div 365;
          doy = doe - (365 * yoe + yoe div 4 - yoe div 100);
          mp = (5 * doy + 2) div 153;
          d = doy - (153 * mp + 2) div 5 + 1;
          m = (if mp < 10 then mp + 3 else mp - 9);
          y = yoe + era * 400 + (if m \<le> 2 then 1 else 0)
      in (y, m, d))"

definition utc_timestamp :: "int \<Rightarrow> string" where
  "utc_timestamp now =
     (let secs = now div 1000000;
          sod = secs mod 86400
      in case civil (secs div 86400) of
           (y, m, d) \<Rightarrow>
             pad4 y @ ''-'' @ pad2 m @ ''-'' @ pad2 d @ ''_''
             @ pad2 (sod div 3600) @ ''-'' @ pad2 (sod mod 3600 div 60) @ ''-'' @ pad2 (sod mod 60))"

text \<open>
  \<open>delete_doc(slug)\<close>, called when the clock reads \<open>now\<close>: \<open>timestamp\<close> is
  \<open>datetime.utcnow()\<close> formatted as \<open>%Y-%m-%d_%H-%M-%S\<close>, and the entry moves with
  \<open>shutil.move\<close>.
\<close>

definition delete_doc :: "int \<Rightarrow> store \<Rightarrow> string \<Rightarrow> store \<times> (pyerror + bool)" where
  "delete_doc now st slug =
     (let timestamp = utc_timestamp now in
      case doc_dir st slug of
        Some (Dir m es) \<Rightarrow>
          (case shutil_move now slug (Dir m es) (slug @ ''_'' @ timestamp) (trash st) of
             Inl e \<Rightarrow> (st, Inl e)
           | Inr tr \<Rightarrow> (st\<lparr>docs := AList.delete slug (docs st), trash := tr\<rparr>, Inr True))
      | _ \<Rightarrow>
          (case doc_md_path_legacy st slug of
             Some n \<Rightarrow>
               (case shutil_move now (slug @ ''.md'') n (slug @ ''_'' @ timestamp @ ''.md'')
                       (trash st) of
                  Inl e \<Rightarrow> (st, Inl e)
                | Inr tr \<Rightarrow>
                    (st\<lparr>docs := AList.delete (slug @ ''.md'') (docs st), trash := tr\<rparr>,
                     Inr True))
           | None \<Rightarrow> (st, Inr False)))"

text \<open>
  \<open>(now - mtime).days\<close> for two times in microseconds: \<open>timedelta\<close> normalises with a
  floor, also for a negative difference.
\<close>

definition age_days :: "int \<Rightarrow> int \<Rightarrow> int" where
  "age_days now mt = (now - mt) div 86400000000"

text \<open>
  The loop of \<open>clean_trash\<close> over the names \<open>os.listdir\<close> gave. \<open>rm name n\<close> is what the
  removal of the entry does: \<open>None\<close> when it succeeds, \<open>Some n'\<close> when it raises and
  leaves \<open>n'\<close> behind.
\<close>

fun sweep :: "(string \<Rightarrow> node \<Rightarrow> node option) \<Rightarrow> int \<Rightarrow> int \<Rightarrow> string list \<Rightarrow> dir
    \<Rightarrow> string list \<Rightarrow> dir \<times> string list" where
  "sweep rm now days [] tr removed = (tr, removed)"
| "sweep rm now days (name # names) tr removed =
     (case map_of tr name of
        None \<Rightarrow> sweep rm now days names tr removed
      | Some n \<Rightarrow>
          (if days \<le> age_days now (mtime n) then
             (case rm name n of
                None \<Rightarrow> sweep rm now days names (AList.delete name tr) (removed @ [name])
              | Some n' \<Rightarrow> sweep rm now days names (AList.update name n' tr) removed)
           else sweep rm now days names tr removed))"

definition clean_trash :: "(string \<Rightarrow> node \<Rightarrow> node option) \<Rightarrow> int \<Rightarrow> store \<Rightarrow> int
    \<Rightarrow> store \<times> string list" where
  "clean_trash rm now st older_than_days =
     (case sweep rm now older_than_days (map fst (trash st)) (trash st) [] of
        (tr, removed) \<Rightarrow> (st\<lparr>trash := tr\<rparr>, removed))"

section \<open>The handlers for creating and restoring\<close>

text \<open>
  \<open>restore_doc\<close> of the web layer, for a request that passed the login and level
  checks; the outcome is the message it flashes. \<open>docs/\<close>, \<open>docs/.\<close> and \<open>docs/..\<close>
  always exist.
\<close>

datatype restore_outcome =
  InvalidName | ItemNotFound | RestoreConflict string | Restored string | RestoreError pyerror

definition base_name :: "string \<Rightarrow> string" where
  "base_name name = remove_md (case split_on (CHR ''_'') name of [] \<Rightarrow> [] | w # ws \<Rightarrow> w)"

definition dest_exists :: "store \<Rightarrow> string \<Rightarrow> bool" where
  "dest_exists st b \<longleftrightarrow> b = [] \<or> b = ''.'' \<or> b = ''..'' \<or> doc_dir st b \<noteq> None"

definition restore_doc :: "int \<Rightarrow> store \<Rightarrow> string \<Rightarrow> store \<times> restore_outcome" where
  "restore_doc clk st name0 =
     (let name = strip name0 in
      if name = [] then (st, InvalidName)
      else
        (case map_of (trash st) name of
           None \<Rightarrow> (st, ItemNotFound)
         | Some src \<Rightarrow>
             (let b = base_name name in
              if doc_md_path_new st b \<noteq> None \<or> doc_md_path_legacy st b \<noteq> None \<or> dest_exists st b
              then (st, RestoreConflict b)
              else
                (case shutil_move clk name src b (docs st) of
                   Inl e \<Rightarrow> (st, RestoreError e)
                 | Inr d \<Rightarrow>
                     (st\<lparr>docs := d, trash := AList.delete name (trash st)\<rparr>, Restored b)))))"

text \<open>
  The POST branch of \<open>new_doc\<close>. The form fields default to the empty string and
  \<open>access_level\<close> to \<open>d1\<close>; \<open>f_icon\<close> is the uploaded icon, if any, as the name
  \<open>upload_file\<close> stores it under and its bytes.
\<close>

record new_doc_form =
  f_title :: string
  f_body :: string
  f_description :: string
  f_tags :: string
  f_access_level :: "string option"
  f_icon :: "(string \<times> string) option"

datatype new_doc_outcome = TitleRequired | AlreadyExists string | Created string | CreateError pyerror

text \<open>
  \<open>upload_file(file, slug)\<close>: the store afterwards and the URL of the stored file, or the
  exception raised.
\<close>

definition upload_file :: "int \<Rightarrow> store \<Rightarrow> string \<Rightarrow> string \<times> string
    \<Rightarrow> store \<times> (pyerror + string)" where
  "upload_file clk st slug icon =
     (if slug = [] then (st, Inl ValueError)
      else
        (case makedirs_doc clk st slug of
           Inl e \<Rightarrow> (st, Inl e)
         | Inr st1 \<Rightarrow>
             (case doc_dir st1 slug of
                None \<Rightarrow> (st1, Inl OSError)
              | Some d \<Rightarrow>
                  (case put_file clk clk (fst icon) (snd icon) d of
                     Inl e \<Rightarrow> (st1, Inl e)
                   | Inr d' \<Rightarrow>
                       (st1\<lparr>docs := AList.update slug d' (docs st1)\<rparr>,
                        Inr (''/docs/'' @ slug @ ''/'' @ fst icon))))))"

text \<open>
  The handler checks the canonical file only, flashes and goes on when the upload
  raises, and passes the slug it computed to \<open>save_doc\<close>.
\<close>

definition new_doc :: "extern \<Rightarrow> string \<Rightarrow> int \<Rightarrow> store \<Rightarrow> string \<Rightarrow> new_doc_form
    \<Rightarrow> store \<times> new_doc_outcome" where
  "new_doc X now clk st user form =
     (let title = strip (f_title form);
          tags = map strip (filter (\<lambda>t. strip t \<noteq> []) (split_on (CHR '','') (strip (f_tags form))))
      in
      if title = [] then (st, TitleRequired)
      else
        (let slug = slugify X title in
         if doc_md_path_new st slug \<noteq> None then (st, AlreadyExists title)
         else
           (let st1 = (case f_icon form of
                         None \<Rightarrow> st
                       | Some icon \<Rightarrow> fst (upload_file clk st slug icon))
            in
            case save_doc X now clk st1
                   \<lparr>a_title = title, a_body = f_body form, a_author_name = user,
                    a_author_email = user @ ''@local'', a_slug = Some slug, a_icon_url = None,
                    a_description = Some (strip (f_description form)), a_tags = TagsList tags,
                    a_category = None, a_cover_url = None,
                    a_access_level = Some (case f_access_level form of
                                             None \<Rightarrow> ''d1'' | Some l \<Rightarrow> l)\<rparr> of
              (st2, Inl e) \<Rightarrow> (st2, CreateError e)
            | (st2, Inr s) \<Rightarrow> (st2, Created s))))"

section \<open>Example data\<close>

text \<open>
  A stand-in for the libraries on the example files below: \<open>slugify\<close> is the identity
  (as python-slugify is on lower-case ASCII words), \<open>fm_loads\<close> reads the example files
  as python-frontmatter does and raises on any other text, \<open>fm_dumps\<close> writes one
  \<open>key: value\<close> line per key, and \<open>markdown\<close> wraps a one-line body in a paragraph.
\<close>

definition text_one :: string where
  "text_one = ''---\<newline>title: One\<newline>tags: [api]\<newline>---\<newline>first''"

definition text_two :: string where
  "text_two = ''---\<newline>title: Two\<newline>tags: [guide]\<newline>---\<newline>second''"

definition text_three :: string where
  "text_three = ''---\<newline>title: Three\<newline>tags: [api, guide]\<newline>---\<newline>third''"

definition text_old :: string where
  "text_old =
     ''---\<newline>access_level: d2\<newline>cover_url: /docs/old/cover.png\<newline>created_at: t0\<newline>created_by: ana\<newline>description: ''
       @ [CHR 0x22, CHR 0x22]
       @ ''\<newline>icon_url: /docs/old/logo.png\<newline>tags: [api]\<newline>title: Old\<newline>---\<newline>old body''"

definition post_old :: post where
  "post_old =
     \<lparr>metadata = [(''access_level'', Str ''d2''), (''cover_url'', Str ''/docs/old/cover.png''),
                  (''created_at'', Str ''t0''), (''created_by'', Str ''ana''),
                  (''description'', Str []), (''icon_url'', Str ''/docs/old/logo.png''),
                  (''tags'', Lst [''api'']), (''title'', Str ''Old'')],
      content = ''old body''\<rparr>"

definition demo_loads :: "string \<Rightarrow> post option" where
  "demo_loads c =
     (if c = text_one then
        Some \<lparr>metadata = [(''title'', Str ''One''), (''tags'', Lst [''api''])], content = ''first''\<rparr>
      else if c = text_two then
        Some \<lparr>metadata = [(''title'', Str ''Two''), (''tags'', Lst [''guide''])], content = ''second''\<rparr>
      else if c = text_three then
        Some \<lparr>metadata = [(''title'', Str ''Three''), (''tags'', Lst [''api'', ''guide''])],
              content = ''third''\<rparr>
      else if c = text_old then Some post_old
      else None)"

fun render_mval :: "mval \<Rightarrow> string" where
  "render_mval (Str s) = s"
| "render_mval (Lst l) = ''['' @ join '', '' l @ '']''"

definition demo_dumps :: "post \<Rightarrow> string" where
  "demo_dumps p =
     ''---\<newline>'' @ concat (map (\<lambda>(k, v). k @ '': '' @ render_mval v @ ''\<newline>'') (metadata p))
       @ ''---\<newline>\<newline>'' @ content p"

definition lib0 :: extern where
  "lib0 = \<lparr>slugify = (\<lambda>t. t), fm_loads = demo_loads, fm_dumps = demo_dumps,
           markdown = (\<lambda>b. ''<p>'' @ b @ ''</p>'')\<rparr>"

text \<open>A removal that fails on the entry \<open>stuck_2025-01-01_00-00-00\<close> and leaves it as it is.\<close>

definition rm_stuck :: "string \<Rightarrow> node \<Rightarrow> node option" where
  "rm_stuck name n = (if name = ''stuck_2025-01-01_00-00-00'' then Some n else None)"

definition day :: int where
  "day = 86400000000"

text \<open>Three trash entries, nine, eight and six days old at time \<open>20 * day\<close>.\<close>

definition trash_store :: store where
  "trash_store =
     \<lparr>docs = [],
      trash = [(''stuck_2025-01-01_00-00-00'', Dir (11 * day) []),
               (''old_2025-01-01_00-00-00'', Dir (12 * day) [(''doc.md'', File (12 * day) text_one)]),
               (''new_2025-01-03_00-00-00.md'', File (14 * day) text_two)]\<rparr>"

text \<open>Three canonical documents tagged \<open>api\<close>, \<open>guide\<close> and both.\<close>

definition tagged_store :: store where
  "tagged_store =
     \<lparr>docs = [(''one'', Dir 1 [(''doc.md'', File 1 text_one)]),
              (''two'', Dir 2 [(''doc.md'', File 2 text_two)]),
              (''three'', Dir 3 [(''doc.md'', File 3 text_three)])],
      trash = []\<rparr>"

text \<open>A canonical document with an asset, and a legacy document.\<close>

definition del_store :: store where
  "del_store =
     \<lparr>docs = [(''one'', Dir 1 [(''doc.md'', File 1 text_one), (''logo.png'', File 1 ''png'')]),
              (''two.md'', File 2 text_two)],
      trash = []\<rparr>"

text \<open>A trashed canonical document whose slug is \<open>readme.md\<close>.\<close>

definition md_trash_store :: store where
  "md_trash_store =
     \<lparr>docs = [],
      trash = [(''readme.md_2025-01-01_10-00-00'', Dir 1 [(''doc.md'', File 1 text_one)])]\<rparr>"

text \<open>A store that holds one legacy document only.\<close>

definition legacy_store :: store where
  "legacy_store = \<lparr>docs = [(''two.md'', File 2 text_two)], trash = []\<rparr>"

text \<open>An existing canonical document with an empty description, and a call that gives only the body.\<close>

definition old_store :: store where
  "old_store = \<lparr>docs = [(''old'', Dir 1 [(''doc.md'', File 1 text_old)])], trash = []\<rparr>"

definition blank_args :: save_args where
  "blank_args = \<lparr>a_title = [], a_body = ''new body'', a_author_name = ''bea'',
     a_author_email = ''bea@local'', a_slug = None, a_icon_url = None, a_description = None,
     a_tags = TagsNone, a_category = None, a_cover_url = None, a_access_level = None\<rparr>"

text \<open>An edit of the document \<open>old\<close> that gives title and body only, and the post it writes.\<close>

definition edit_args :: save_args where
  "edit_args = blank_args\<lparr>a_title := ''Old'', a_slug := Some ''old''\<rparr>"

definition post_edited :: post where
  "post_edited =
     \<lparr>metadata = [(''access_level'', Str ''d2''), (''cover_url'', Str ''/docs/old/cover.png''),
                  (''created_at'', Str ''t0''), (''created_by'', Str ''ana''),
                  (''description'', Str ''new body''), (''icon_url'', Str ''/docs/old/logo.png''),
                  (''tags'', Lst [''api'']), (''title'', Str ''Old''),
                  (''last_edited_at'', Str ''t1''), (''last_edited_by'', Str ''bea'')],
      content = ''new body''\<rparr>"







text \<open>
  The store \<open>del_store\<close> after the document \<open>one\<close> was deleted at 2025-01-05 10:00:00 UTC,
  and a form that creates a document titled \<open>one\<close>.
\<close>

definition once_store :: store where
  "once_store =
     \<lparr>docs = [(''two.md'', File 2 text_two)],
      trash = [(''one_2025-01-05_10-00-00'',
                Dir 1 [(''doc.md'', File 1 text_one), (''logo.png'', File 1 ''png'')])]\<rparr>"

definition form_one :: new_doc_form where
  "form_one = \<lparr>f_title = ''one'', f_body = ''again'', f_description = [], f_tags = [],
                f_access_level = None, f_icon = None\<rparr>"

text \<open>A canonical document whose slug holds an underscore, and the store after its deletion.\<close>

definition underscore_store :: store where
  "underscore_store =
     \<lparr>docs = [(''my_doc'', Dir 1 [(''doc.md'', File 1 text_one)])], trash = []\<rparr>"

definition underscore_trash_store :: store where
  "underscore_trash_store =
     \<lparr>docs = [],
      trash = [(''my_doc_2025-01-05_10-00-00'', Dir 1 [(''doc.md'', File 1 text_one)])]\<rparr>"

text \<open>The store \<open>legacy_store\<close> after the deletion of \<open>two\<close>, and after its restore.\<close>

definition legacy_trash_store :: store where
  "legacy_trash_store =
     \<lparr>docs = [], trash = [(''two_2025-01-05_10-00-00.md'', File 2 text_two)]\<rparr>"

definition legacy_restored_store :: store where
  "legacy_restored_store = \<lparr>docs = [(''two'', File 2 text_two)], trash = []\<rparr>"

text \<open>
  A document \<open>x\<close> tagged \<open>guide\<close> in its canonical file, beside the legacy file the
  migration on read left behind, which still carries the earlier title and the tag \<open>api\<close>.
\<close>

definition shadow_store :: store where
  "shadow_store =
     \<lparr>docs = [(''x'', Dir 5 [(''doc.md'', File 5 text_two)]), (''x.md'', File 2 text_one)],
      trash = []\<rparr>"

section \<open>Retention sweep\<close>

lemma sweep_spec:
  "distinct names \<Longrightarrow>
   sweep rm now days names tr removed = (tr', removed') \<Longrightarrow>
   removed' = removed @ filter (\<lambda>n. case map_of tr n of None \<Rightarrow> False
                 | Some e \<Rightarrow> days \<le> age_days now (mtime e) \<and> rm n e = None) names
   \<and> (\<forall>n. map_of tr' n = (case map_of tr n of None \<Rightarrow> None
                 | Some e \<Rightarrow> if n \<in> set names \<and> days \<le> age_days now (mtime e)
                             then rm n e else Some e))"
proof (induction names arbitrary: tr removed)
  case Nil
  then show ?case by (auto split: option.splits)
next
  case (Cons name names)
  from Cons.prems(1) have d: "distinct names" and nin: "name \<notin> set names" by auto
  have unaff: "\<And>tr2. (\<forall>n. n \<noteq> name \<longrightarrow> map_of tr2 n = map_of tr n) \<Longrightarrow>
      filter (\<lambda>n. case map_of tr2 n of None \<Rightarrow> False
                 | Some e \<Rightarrow> days \<le> age_days now (mtime e) \<and> rm n e = None) names
    = filter (\<lambda>n. case map_of tr n of None \<Rightarrow> False
                 | Some e \<Rightarrow> days \<le> age_days now (mtime e) \<and> rm n e = None) names"
    using nin by (intro filter_cong) auto
  show ?case
  proof (cases "map_of tr name")
    case None
    with Cons.prems(2) have "sweep rm now days names tr removed = (tr', removed')" by simp
    from Cons.IH[OF d this] None show ?thesis by (auto split: option.splits)
  next
    case (Some e)
    show ?thesis
    proof (cases "days \<le> age_days now (mtime e)")
      case False
      with Some Cons.prems(2) have "sweep rm now days names tr removed = (tr', removed')" by simp
      from Cons.IH[OF d this] Some False nin show ?thesis by (auto split: option.splits)
    next
      case True
      show ?thesis
      proof (cases "rm name e")
        case None
        with Some True Cons.prems(2)
        have "sweep rm now days names (AList.delete name tr) (removed @ [name]) = (tr', removed')"
          by simp
        from Cons.IH[OF d this] unaff[of "AList.delete name tr"] Some True None nin
        show ?thesis by (auto simp: delete_conv' split: option.splits)
      next
        case (Some e')
        with \<open>map_of tr name = Some e\<close> True Cons.prems(2)
        have "sweep rm now days names (AList.update name e' tr) removed = (tr', removed')"
          by simp
        from Cons.IH[OF d this] unaff[of "AList.update name e' tr"]
          \<open>map_of tr name = Some e\<close> True Some nin
        show ?thesis by (auto simp: update_conv' split: option.splits)
      qed
    qed
  qed
qed

text \<open>
  Claim C7. \<open>clean_trash\<close> returns, in listing order, exactly the names of the trash
  entries whose age in whole days, computed from the last-modified time, is at or
  beyond the threshold and whose removal succeeded. Afterwards such an entry is gone, an
  entry at or beyond the threshold whose removal raised is what the failed removal left,
  and every other entry and the documents are unchanged: a failure skips one entry and
  the loop goes on.
\<close>

theorem clean_trash_sweep:
  assumes "distinct (map fst (trash st))"
    and "clean_trash rm now st days = (st', removed)"
  shows "removed = filter (\<lambda>n. case map_of (trash st) n of None \<Rightarrow> False
                     | Some e \<Rightarrow> days \<le> age_days now (mtime e) \<and> rm n e = None)
                   (map fst (trash st))
    \<and> (\<forall>n. map_of (trash st') n =
             (case map_of (trash st) n of None \<Rightarrow> None
              | Some e \<Rightarrow> if days \<le> age_days now (mtime e) then rm n e else Some e))
    \<and> docs st' = docs st"
proof -
  obtain tr r where sw: "sweep rm now days (map fst (trash st)) (trash st) [] = (tr, r)"
    by (cases "sweep rm now days (map fst (trash st)) (trash st) []") auto
  with assms(2) have st': "st' = st\<lparr>trash := tr\<rparr>" and r: "removed = r"
    by (auto simp: clean_trash_def)
  have key: "\<And>n e. map_of (trash st) n = Some e \<Longrightarrow> n \<in> set (map fst (trash st))"
    by (metis map_of_eq_None_iff option.distinct(1) set_map)
  from sweep_spec[OF assms(1) sw] st' r key show ?thesis
    by (auto split: option.splits)
qed

theorem clean_trash_sweep_witness:
  "distinct (map fst (trash trash_store))
   \<and> clean_trash rm_stuck (20 * day) trash_store 7 =
       (trash_store\<lparr>trash := [(''stuck_2025-01-01_00-00-00'', Dir (11 * day) []),
                               (''new_2025-01-03_00-00-00.md'', File (14 * day) text_two)]\<rparr>,
        [''old_2025-01-01_00-00-00''])
   \<and> [''old_2025-01-01_00-00-00''] =
       filter (\<lambda>n. case map_of (trash trash_store) n of None \<Rightarrow> False
                 | Some e \<Rightarrow> 7 \<le> age_days (20 * day) (mtime e) \<and> rm_stuck n e = None)
         (map fst (trash trash_store))"
proof -
  have d: "distinct (map fst (trash trash_store))"
    by (simp add: trash_store_def)
  have c: "clean_trash rm_stuck (20 * day) trash_store 7 =
       (trash_store\<lparr>trash := [(''stuck_2025-01-01_00-00-00'', Dir (11 * day) []),
                               (''new_2025-01-03_00-00-00.md'', File (14 * day) text_two)]\<rparr>,
        [''old_2025-01-01_00-00-00''])"
    by (simp add: clean_trash_def trash_store_def rm_stuck_def age_days_def day_def)
  from clean_trash_sweep[OF d c] d c show ?thesis by blast
qed

section \<open>Listing does not read the access tier\<close>

text \<open>
  Claim C10. For a fixed store, query and tag set, \<open>list_docs\<close> gives the same result
  whatever the access-tier argument \<open>nivel\<close> is: the listing applies no tier filter.
\<close>

theorem list_docs_tier_blind:
  "list_docs X st query tags nivel1 = list_docs X st query tags nivel2"
  by (simp add: list_docs_def)

theorem list_docs_tier_blind_witness:
  "list_docs lib0 tagged_store ''first'' (Some [''api'']) ''n1''
     = list_docs lib0 tagged_store ''first'' (Some [''api'']) ''n3''"
  by (rule list_docs_tier_blind)

section \<open>Soft delete\<close>

text \<open>
  While the trash holds no entry of the new name, \<open>delete_doc\<close> moves the directory
  \<open>docs/<slug>\<close> under \<open><slug>_<timestamp>\<close>, or else the entry \<open>docs/<slug>.md\<close> under
  \<open><slug>_<timestamp>.md\<close>, and returns true; where neither exists it returns false and
  the store is unchanged.
\<close>

lemma delete_doc_free_name:
  "(\<forall>m es. doc_dir st slug = Some (Dir m es)
        \<and> map_of (trash st) (slug @ ''_'' @ utc_timestamp now) = None \<longrightarrow>
      delete_doc now st slug =
        (st\<lparr>docs := AList.delete slug (docs st),
            trash := AList.update (slug @ ''_'' @ utc_timestamp now) (Dir m es) (trash st)\<rparr>,
         Inr True))
   \<and> (\<forall>n. \<not> isdir (doc_dir st slug) \<and> doc_md_path_legacy st slug = Some n
          \<and> map_of (trash st) (slug @ ''_'' @ utc_timestamp now @ ''.md'') = None \<longrightarrow>
      delete_doc now st slug =
        (st\<lparr>docs := AList.delete (slug @ ''.md'') (docs st),
            trash := AList.update (slug @ ''_'' @ utc_timestamp now @ ''.md'') n (trash st)\<rparr>,
         Inr True))
   \<and> (\<not> isdir (doc_dir st slug) \<and> doc_md_path_legacy st slug = None \<longrightarrow>
      delete_doc now st slug = (st, Inr False))"
  by (auto simp: delete_doc_def Let_def shutil_move_def isdir_def
      split: option.splits node.splits)

text \<open>
  Claim C6 says that \<open>delete_doc\<close> moves the directory \<open>docs/<slug>\<close> into the trash
  under the name \<open><slug>_<timestamp>\<close>, the timestamp being the UTC time to the second,
  for every slug. The code does so only while the trash holds no entry of that name.
  Two clock readings 0.4 seconds apart give the same timestamp. The document \<open>one\<close> is
  deleted at the first, created again by the create handler, and deleted at the second:
  \<open>shutil.move\<close> finds the directory \<open>trash/one_2025-01-05_10-00-00\<close> of the first
  deletion and moves the second generation inside it, as
  \<open>trash/one_2025-01-05_10-00-00/one\<close>. \<open>delete_doc\<close> returns true, and the trash holds
  one unit where two documents were deleted.
\<close>

theorem delete_doc_same_second_nests:
  "utc_timestamp 1736071200000000 = ''2025-01-05_10-00-00''
   \<and> utc_timestamp 1736071200400000 = ''2025-01-05_10-00-00''
   \<and> delete_doc 1736071200000000 del_store ''one'' = (once_store, Inr True)
   \<and> snd (new_doc lib0 ''t1'' 1736071200200000 once_store ''bea'' form_one) = Created ''one''
   \<and> (case delete_doc 1736071200400000
              (fst (new_doc lib0 ''t1'' 1736071200200000 once_store ''bea'' form_one)) ''one'' of
         (st, r) \<Rightarrow>
           r = Inr True
           \<and> map fst (docs st) = [''two.md'']
           \<and> map (\<lambda>(name, n). (name, map fst (entries n))) (trash st) =
               [(''one_2025-01-05_10-00-00'', [''doc.md'', ''logo.png'', ''one''])])"
  by code_simp

section \<open>Restore\<close>

text \<open>
  Claim C2 says that \<open>restore_doc\<close> derives the original slug from the name of the trash
  entry, refuses on a conflict, and otherwise moves the entry back to the canonical
  location of that slug. The code takes the text before the first underscore and deletes
  every \<open>.md\<close> from it, which is not the slug \<open>delete_doc\<close> put in the name:

  \<^item> the document \<open>my_doc\<close>, deleted, is restored as \<open>docs/my\<close>;
  \<^item> the trashed document \<open>readme.md\<close> is restored as \<open>docs/readme\<close>;
  \<^item> the legacy document \<open>two\<close>, deleted as the file \<open>two_2025-01-05_10-00-00.md\<close>, is
    restored as a regular file \<open>docs/two\<close>, where \<open>read_doc\<close> finds no document and the
    listing shows none.
\<close>

theorem restore_doc_slug_not_recovered:
  "delete_doc 1736071200000000 underscore_store ''my_doc'' = (underscore_trash_store, Inr True)
   \<and> restore_doc 1736071300000000 underscore_trash_store ''my_doc_2025-01-05_10-00-00'' =
       (\<lparr>docs = [(''my'', Dir 1 [(''doc.md'', File 1 text_one)])], trash = []\<rparr>, Restored ''my'')
   \<and> restore_doc 1736071300000000 md_trash_store ''readme.md_2025-01-01_10-00-00'' =
       (\<lparr>docs = [(''readme'', Dir 1 [(''doc.md'', File 1 text_one)])], trash = []\<rparr>,
        Restored ''readme'')
   \<and> delete_doc 1736071200000000 legacy_store ''two'' = (legacy_trash_store, Inr True)
   \<and> restore_doc 1736071300000000 legacy_trash_store ''two_2025-01-05_10-00-00.md'' =
       (legacy_restored_store, Restored ''two'')
   \<and> read_doc lib0 1736071400000000 legacy_restored_store ''two'' = (legacy_restored_store, None)
   \<and> list_docs lib0 legacy_restored_store [] None ''n1'' = Inr []"
  by code_simp

text \<open>The round trip of the document \<open>my_doc\<close> through the trash ends at the slug \<open>my\<close>.\<close>

theorem restore_doc_slug_not_recovered_witness:
  "snd (restore_doc 1736071300000000
          (fst (delete_doc 1736071200000000 underscore_store ''my_doc''))
          ''my_doc_2025-01-05_10-00-00'') = Restored ''my''
   \<and> doc_dir (fst (restore_doc 1736071300000000
          (fst (delete_doc 1736071200000000 underscore_store ''my_doc''))
          ''my_doc_2025-01-05_10-00-00'')) ''my_doc'' = None"
  using restore_doc_slug_not_recovered by (simp add: doc_dir_def)

section \<open>Migration on read\<close>

lemma read_doc_first:
  assumes leg: "doc_md_path_legacy st s = Some (File fm c)"
    and new: "doc_md_path_new st s = None"
    and dir: "doc_dir st s = None \<or> isdir (doc_dir st s)"
    and s: "strip slug = s"
  shows "\<exists>m es. read_doc X clk st slug =
           (st\<lparr>docs := AList.update s (Dir m (AList.update ''doc.md'' (File fm c) es)) (docs st)\<rparr>,
            fm_loads X c)"
proof (cases "doc_dir st s")
  case None
  with leg new s have "read_doc X clk st slug =
           (st\<lparr>docs := AList.update s (Dir clk (AList.update ''doc.md'' (File fm c) [])) (docs st)\<rparr>,
            fm_loads X c)"
    by (auto simp: read_doc_def makedirs_doc_def copy2_legacy_def put_file_def fm_load_def
        read_legacy_def doc_dir_def doc_md_path_new_def doc_md_path_legacy_def update_conv'
        split: option.splits)
  then show ?thesis by blast
next
  case (Some n)
  with dir obtain m es where n: "n = Dir m es" by (auto simp: isdir_def split: node.splits)
  with Some new have e: "map_of es ''doc.md'' = None" by (simp add: doc_md_path_new_def)
  from leg new s Some n e show ?thesis
    by (auto simp: read_doc_def makedirs_doc_def copy2_legacy_def put_file_def fm_load_def
        read_legacy_def doc_dir_def doc_md_path_new_def doc_md_path_legacy_def update_conv'
        split: option.splits)
qed

lemma read_doc_second:
  assumes leg: "doc_md_path_legacy st s = Some (File fm c)"
    and dd: "doc_dir st s = Some (Dir m es)"
    and md: "map_of es ''doc.md'' = Some (File fm c)"
    and s: "strip slug = s"
  shows "read_doc X clk st slug = (st, fm_loads X c)"
proof -
  have 1: "AList.update ''doc.md'' (File fm c) es = es" using md by (rule update_triv)
  have 2: "AList.update s (Dir m es) (docs st) = docs st"
    using dd unfolding doc_dir_def by (rule update_triv)
  from leg dd md s show ?thesis
    by (auto simp: read_doc_def makedirs_doc_def copy2_legacy_def put_file_def fm_load_def
        read_legacy_def doc_md_path_new_def 1 2
        split: option.splits)
qed

text \<open>
  Claim C4. Where, for the slug as \<open>read_doc\<close> trims it, the legacy file
  \<open>docs/<slug>.md\<close> is a regular file, \<open>docs/<slug>/doc.md\<close> does not exist and
  \<open>docs/<slug>\<close> is absent or a directory, the first \<open>read_doc\<close> leaves the canonical file
  \<open>docs/<slug>/doc.md\<close> with the content and modification time of the legacy file, keeps
  the legacy file, changes nothing else, and returns what the front-matter library makes
  of that content; a second \<open>read_doc\<close> returns the same result and the same store.
\<close>

theorem read_doc_migration:
  assumes "plain_name (strip slug)"
    and leg: "doc_md_path_legacy st (strip slug) = Some (File fm c)"
    and new: "doc_md_path_new st (strip slug) = None"
    and dir: "doc_dir st (strip slug) = None \<or> isdir (doc_dir st (strip slug))"
  shows "case read_doc X clk st slug of
           (st1, r1) \<Rightarrow>
             r1 = fm_loads X c
             \<and> doc_md_path_new st1 (strip slug) = Some (File fm c)
             \<and> doc_md_path_legacy st1 (strip slug) = Some (File fm c)
             \<and> (\<forall>k. k \<noteq> strip slug \<longrightarrow> map_of (docs st1) k = map_of (docs st) k)
             \<and> trash st1 = trash st
             \<and> read_doc X clk2 st1 slug = (st1, r1)"
proof -
  from read_doc_first[OF leg new dir refl, of X clk]
  obtain m es where r: "read_doc X clk st slug =
           (st\<lparr>docs := AList.update (strip slug) (Dir m (AList.update ''doc.md'' (File fm c) es)) (docs st)\<rparr>,
            fm_loads X c)" by blast
  let ?st1 = "st\<lparr>docs := AList.update (strip slug) (Dir m (AList.update ''doc.md'' (File fm c) es)) (docs st)\<rparr>"
  have l1: "doc_md_path_legacy ?st1 (strip slug) = Some (File fm c)"
    using leg by (simp add: doc_md_path_legacy_def update_conv')
  have d1: "doc_dir ?st1 (strip slug) = Some (Dir m (AList.update ''doc.md'' (File fm c) es))"
    by (simp add: doc_dir_def update_conv')
  have m1: "map_of (AList.update ''doc.md'' (File fm c) es) ''doc.md'' = Some (File fm c)"
    by (simp add: update_conv')
  have n1: "doc_md_path_new ?st1 (strip slug) = Some (File fm c)"
    by (simp add: doc_md_path_new_def d1 m1)
  have "read_doc X clk2 ?st1 slug = (?st1, fm_loads X c)"
    by (rule read_doc_second[OF l1 d1 m1 refl])
  with r l1 n1 show ?thesis by (simp add: update_conv')
qed

theorem read_doc_migration_witness:
  "plain_name (strip ''two'')
   \<and> read_doc lib0 5 legacy_store ''two'' =
       (\<lparr>docs = [(''two.md'', File 2 text_two), (''two'', Dir 5 [(''doc.md'', File 2 text_two)])],
         trash = []\<rparr>, demo_loads text_two)
   \<and> read_doc lib0 6
       \<lparr>docs = [(''two.md'', File 2 text_two), (''two'', Dir 5 [(''doc.md'', File 2 text_two)])],
        trash = []\<rparr> ''two'' =
       (\<lparr>docs = [(''two.md'', File 2 text_two), (''two'', Dir 5 [(''doc.md'', File 2 text_two)])],
         trash = []\<rparr>, demo_loads text_two)
   \<and> demo_loads text_two =
       Some \<lparr>metadata = [(''title'', Str ''Two''), (''tags'', Lst [''guide''])], content = ''second''\<rparr>"
proof -
  have s: "strip ''two'' = ''two''" by (simp add: strip_def strip_chars_def is_space_def)
  have p: "plain_name (strip ''two'')" by (simp add: s plain_name_def)
  have l: "doc_md_path_legacy legacy_store (strip ''two'') = Some (File 2 text_two)"
    by (simp add: s doc_md_path_legacy_def legacy_store_def)
  have n: "doc_md_path_new legacy_store (strip ''two'') = None"
    by (simp add: s doc_md_path_new_def doc_dir_def legacy_store_def)
  have d: "doc_dir legacy_store (strip ''two'') = None \<or> isdir (doc_dir legacy_store (strip ''two''))"
    by (simp add: s doc_dir_def legacy_store_def)
  have r: "read_doc lib0 5 legacy_store ''two'' =
       (\<lparr>docs = [(''two.md'', File 2 text_two), (''two'', Dir 5 [(''doc.md'', File 2 text_two)])],
         trash = []\<rparr>, demo_loads text_two)"
    by (simp add: read_doc_def s doc_md_path_new_def doc_md_path_legacy_def doc_dir_def
        legacy_store_def makedirs_doc_def copy2_legacy_def put_file_def fm_load_def lib0_def
        read_legacy_def split: option.splits)
  have t: "demo_loads text_two =
       Some \<lparr>metadata = [(''title'', Str ''Two''), (''tags'', Lst [''guide''])], content = ''second''\<rparr>"
    by (simp add: demo_loads_def text_one_def text_two_def)
  from read_doc_migration[OF p l n d, where X=lib0 and clk=5 and ?clk2.0=6] r p t show ?thesis
    by (simp add: lib0_def)
qed

section \<open>What a write keeps and what it sets\<close>

lemma lk_set_key:
  "map_of (metadata (set_key k v p)) k' = (if k' = k then Some v else map_of (metadata p) k')"
  by (simp add: set_key_def update_conv')

lemma lk_default_key:
  "map_of (metadata (default_key k v p)) k' =
     (if k' = k then (case map_of (metadata p) k of None \<Rightarrow> Some v | Some w \<Rightarrow> Some w)
      else map_of (metadata p) k')"
  by (auto simp: default_key_def has_key_def lk_set_key)

lemma lk_set_if_given:
  "map_of (metadata (set_if_given k x p)) k' =
     (if k' = k then (case x of None \<Rightarrow> map_of (metadata p) k | Some v \<Rightarrow> Some v)
      else map_of (metadata p) k')"
  by (auto simp: set_if_given_def lk_set_key split: option.splits)

lemma lk_set_access_level:
  "map_of (metadata (set_access_level a p)) k' =
     (if k' = ''access_level''
      then (case a_access_level a of
              Some l \<Rightarrow> Some (Str l)
            | None \<Rightarrow> (case map_of (metadata p) ''access_level'' of
                         None \<Rightarrow> Some (Str ''d1'') | Some w \<Rightarrow> Some w))
      else map_of (metadata p) k')"
  by (auto simp: set_access_level_def lk_set_key lk_default_key split: option.splits)

lemma lk_set_title:
  "k' \<noteq> ''title'' \<Longrightarrow> map_of (metadata (set_title slug a p)) k' = map_of (metadata p) k'"
  by (simp add: set_title_def lk_set_key)

lemma lk_set_description:
  "map_of (metadata (set_description a p)) k' =
     (if k' = ''description''
      then (case a_description a of
              Some d \<Rightarrow> Some (Str d)
            | None \<Rightarrow> (if truthy (post_get p ''description'' (Str []))
                       then map_of (metadata p) ''description''
                       else Some (Str (take 300 (strip (a_body a))))))
      else map_of (metadata p) k')"
  by (auto simp: set_description_def lk_set_key split: option.splits)

lemmas lk = merge_post_def lk_set_key lk_default_key lk_set_if_given lk_set_access_level
  lk_set_title lk_set_description

lemma merge_post_frame:
  "map_of (metadata (merge_post now slug a p)) ''created_at'' =
     (case map_of (metadata p) ''created_at'' of None \<Rightarrow> Some (Str now) | Some v \<Rightarrow> Some v)"
  "map_of (metadata (merge_post now slug a p)) ''created_by'' =
     (case map_of (metadata p) ''created_by'' of
        None \<Rightarrow> Some (Str (a_author_name a)) | Some v \<Rightarrow> Some v)"
  "map_of (metadata (merge_post now slug a p)) ''last_edited_at'' = Some (Str now)"
  "map_of (metadata (merge_post now slug a p)) ''last_edited_by'' = Some (Str (a_author_name a))"
  "map_of (metadata (merge_post now slug a p)) ''tags'' =
     (case tags_list (a_tags a) of None \<Rightarrow> map_of (metadata p) ''tags'' | Some l \<Rightarrow> Some (Lst l))"
  "map_of (metadata (merge_post now slug a p)) ''icon_url'' =
     (case a_icon_url a of None \<Rightarrow> map_of (metadata p) ''icon_url'' | Some u \<Rightarrow> Some (Str u))"
  "map_of (metadata (merge_post now slug a p)) ''cover_url'' =
     (case a_cover_url a of None \<Rightarrow> map_of (metadata p) ''cover_url'' | Some u \<Rightarrow> Some (Str u))"
  "map_of (metadata (merge_post now slug a p)) ''access_level'' =
     (case a_access_level a of
        Some l \<Rightarrow> Some (Str l)
      | None \<Rightarrow> (case map_of (metadata p) ''access_level'' of
                   None \<Rightarrow> Some (Str ''d1'') | Some w \<Rightarrow> Some w))"
  by (simp_all add: lk split: option.splits)

lemma post_get_set_other:
  "k \<noteq> k' \<Longrightarrow> post_get (set_key k' v p) k d = post_get p k d"
  by (simp add: post_get_def lk_set_key)

lemma merge_post_description:
  "map_of (metadata (merge_post now slug a p)) ''description'' =
     (case a_description a of
        Some d \<Rightarrow> Some (Str d)
      | None \<Rightarrow> (if truthy (post_get p ''description'' (Str []))
                 then map_of (metadata p) ''description''
                 else Some (Str (take 300 (strip (a_body a))))))"
proof -
  have "post_get (default_key ''created_by'' (Str (a_author_name a))
          (default_key ''created_at'' (Str now)
            (set_key ''last_edited_by'' (Str (a_author_name a))
              (set_key ''last_edited_at'' (Str now)
                (set_title slug a (set_access_level a p)))))) ''description'' (Str [])
        = post_get p ''description'' (Str [])"
    by (simp add: post_get_def lk)
  then show ?thesis
    by (simp add: lk split: option.splits)
qed

lemma merge_post_content: "content (merge_post now slug a p) = a_body a"
  by (simp add: merge_post_def)

lemma save_doc_ok:
  assumes slug: "resolve_slug X a = slug"
    and dir: "doc_dir st slug = None \<or> isdir (doc_dir st slug)"
    and load: "load_existing X st slug = Inr p"
  shows "snd (save_doc X now clk st a) = Inr slug
    \<and> doc_md_path_new (fst (save_doc X now clk st a)) slug =
        Some (File clk (fm_dumps X (merge_post now slug a p)))
    \<and> (\<forall>k. k \<noteq> slug \<longrightarrow> map_of (docs (fst (save_doc X now clk st a))) k = map_of (docs st) k)
    \<and> trash (fst (save_doc X now clk st a)) = trash st"
proof (cases "doc_dir st slug")
  case None
  then have n: "doc_md_path_new st slug = None" by (simp add: doc_md_path_new_def)
  let ?st1 = "st\<lparr>docs := AList.update slug (Dir clk []) (docs st)\<rparr>"
  have mk: "makedirs_doc clk st slug = Inr ?st1" using None by (simp add: makedirs_doc_def)
  have l1: "load_existing X ?st1 slug = Inr p"
    using load n
    by (auto simp: load_existing_def doc_md_path_new_def doc_md_path_legacy_def doc_dir_def
        update_conv' split: if_splits)
  show ?thesis
    using slug mk l1
    by (simp add: save_doc_def write_doc_md_def put_file_def doc_dir_def doc_md_path_new_def
        update_conv')
next
  case (Some n)
  with dir obtain m es where n: "n = Dir m es" by (auto simp: isdir_def split: node.splits)
  have mk: "makedirs_doc clk st slug = Inr st" using Some n by (simp add: makedirs_doc_def)
  have nd: "\<And>m' es'. map_of es ''doc.md'' \<noteq> Some (Dir m' es')"
    using load Some n
    by (auto simp: load_existing_def doc_md_path_new_def fm_load_def split: if_splits)
  show ?thesis
    using slug mk load Some n nd
    by (cases "map_of es ''doc.md''")
       (auto simp: save_doc_def write_doc_md_def put_file_def doc_dir_def doc_md_path_new_def
          update_conv' split: node.splits)
qed


lemmas store_eval = doc_dir_def doc_md_path_new_def doc_md_path_legacy_def isdir_def
  makedirs_doc_def load_existing_def fm_load_def write_doc_md_def put_file_def

lemmas merge_eval = merge_post_def set_access_level_def set_title_def set_description_def
  default_key_def set_if_given_def set_key_def has_key_def post_get_def tags_list_def
  strip_def strip_chars_def is_space_def

lemma demo_loads_old: "demo_loads text_old = Some post_old"
  by (simp add: demo_loads_def text_old_def text_one_def text_two_def text_three_def)

lemma load_old: "load_existing lib0 old_store ''old'' = Inr post_old"
  by (simp add: store_eval old_store_def lib0_def demo_loads_old)

lemma merge_edit: "merge_post ''t1'' ''old'' edit_args post_old = post_edited"
  by (simp add: merge_eval edit_args_def blank_args_def post_old_def post_edited_def)

text \<open>
  Claim C5, as stated, fails for the description: the stored description of \<open>old\<close> is
  the empty string, the edit omits the description, and the post written has the
  description \<open>new body\<close>, taken from the new body.
\<close>

theorem save_doc_description_counterexample:
  "load_existing lib0 old_store ''old'' = Inr post_old
   \<and> map_of (metadata post_old) ''description'' = Some (Str [])
   \<and> a_slug edit_args = Some ''old'' \<and> a_description edit_args = None
   \<and> save_doc lib0 ''t1'' 9 old_store edit_args =
       (\<lparr>docs = [(''old'', Dir 1 [(''doc.md'', File 9 (demo_dumps post_edited))])], trash = []\<rparr>,
        Inr ''old'')
   \<and> map_of (metadata post_edited) ''description'' = Some (Str ''new body'')"
proof -
  have r: "resolve_slug lib0 edit_args = ''old''"
    by (simp add: resolve_slug_def edit_args_def blank_args_def)
  have "save_doc lib0 ''t1'' 9 old_store edit_args =
       (\<lparr>docs = [(''old'', Dir 1 [(''doc.md'', File 9 (demo_dumps post_edited))])], trash = []\<rparr>,
        Inr ''old'')"
    unfolding save_doc_def r Let_def
    by (simp add: store_eval old_store_def lib0_def demo_loads_old merge_edit)
  then show ?thesis
    by (simp add: load_old post_old_def post_edited_def edit_args_def blank_args_def)
qed

text \<open>
  Claim C5, amended. Every write addressed at an existing slug whose stored post loads
  (and where \<open>docs/<slug>\<close> is not a regular file) succeeds and writes the merged post to
  the canonical file. In the post written, \<open>created_at\<close> and \<open>created_by\<close> are the stored
  values where the stored post has them (else the current time and actor),
  \<open>last_edited_at\<close> and \<open>last_edited_by\<close> are the current time and actor, and with the
  argument omitted \<open>tags\<close>, \<open>icon_url\<close> and \<open>cover_url\<close> are as stored, \<open>access_level\<close> is
  as stored where it is stored (else \<open>d1\<close>), and \<open>description\<close> is as stored where the
  stored value is non-empty, else the first 300 characters of the trimmed new body.
\<close>

theorem save_doc_edit_frame:
  assumes "plain_name slug" and "a_slug a = Some slug"
    and "doc_md_path_new st slug \<noteq> None \<or> doc_md_path_legacy st slug \<noteq> None"
    and "load_existing X st slug = Inr p"
    and "doc_dir st slug = None \<or> isdir (doc_dir st slug)"
  shows "snd (save_doc X now clk st a) = Inr slug
    \<and> (let p' = merge_post now slug a p in
         doc_md_path_new (fst (save_doc X now clk st a)) slug = Some (File clk (fm_dumps X p'))
         \<and> map_of (metadata p') ''created_at'' =
             (case map_of (metadata p) ''created_at'' of None \<Rightarrow> Some (Str now) | Some v \<Rightarrow> Some v)
         \<and> map_of (metadata p') ''created_by'' =
             (case map_of (metadata p) ''created_by'' of
                None \<Rightarrow> Some (Str (a_author_name a)) | Some v \<Rightarrow> Some v)
         \<and> map_of (metadata p') ''last_edited_at'' = Some (Str now)
         \<and> map_of (metadata p') ''last_edited_by'' = Some (Str (a_author_name a))
         \<and> (a_tags a = TagsNone \<longrightarrow> map_of (metadata p') ''tags'' = map_of (metadata p) ''tags'')
         \<and> (a_icon_url a = None \<longrightarrow>
              map_of (metadata p') ''icon_url'' = map_of (metadata p) ''icon_url'')
         \<and> (a_cover_url a = None \<longrightarrow>
              map_of (metadata p') ''cover_url'' = map_of (metadata p) ''cover_url'')
         \<and> (a_access_level a = None \<longrightarrow>
              map_of (metadata p') ''access_level'' =
                (case map_of (metadata p) ''access_level'' of
                   None \<Rightarrow> Some (Str ''d1'') | Some w \<Rightarrow> Some w))
         \<and> (a_description a = None \<longrightarrow>
              map_of (metadata p') ''description'' =
                (if truthy (post_get p ''description'' (Str []))
                 then map_of (metadata p) ''description''
                 else Some (Str (take 300 (strip (a_body a)))))))"
proof -
  from assms(1,2) have r: "resolve_slug X a = slug"
    by (simp add: resolve_slug_def plain_name_def)
  from save_doc_ok[OF r assms(5) assms(4), of now clk]
  have ok: "snd (save_doc X now clk st a) = Inr slug"
    "doc_md_path_new (fst (save_doc X now clk st a)) slug =
        Some (File clk (fm_dumps X (merge_post now slug a p)))"
    by simp_all
  show ?thesis
    unfolding Let_def
    using ok
    by (simp add: merge_post_frame merge_post_description tags_list_def)
qed

theorem save_doc_edit_frame_witness:
  "plain_name ''old'' \<and> a_slug edit_args = Some ''old''
   \<and> load_existing lib0 old_store ''old'' = Inr post_old
   \<and> snd (save_doc lib0 ''t1'' 9 old_store edit_args) = Inr ''old''
   \<and> doc_md_path_new (fst (save_doc lib0 ''t1'' 9 old_store edit_args)) ''old'' =
       Some (File 9 (demo_dumps post_edited))
   \<and> map_of (metadata post_old) ''created_at'' = Some (Str ''t0'')
   \<and> map_of (metadata post_edited) ''created_at'' = Some (Str ''t0'')
   \<and> map_of (metadata post_edited) ''created_by'' = Some (Str ''ana'')
   \<and> map_of (metadata post_edited) ''last_edited_at'' = Some (Str ''t1'')
   \<and> map_of (metadata post_edited) ''last_edited_by'' = Some (Str ''bea'')
   \<and> a_tags edit_args = TagsNone \<and> a_icon_url edit_args = None
   \<and> a_cover_url edit_args = None \<and> a_access_level edit_args = None
   \<and> map_of (metadata post_edited) ''tags'' = map_of (metadata post_old) ''tags''
   \<and> map_of (metadata post_edited) ''icon_url'' = map_of (metadata post_old) ''icon_url''
   \<and> map_of (metadata post_edited) ''cover_url'' = map_of (metadata post_old) ''cover_url''
   \<and> map_of (metadata post_edited) ''access_level'' = Some (Str ''d2'')"
proof -
  have p: "plain_name ''old''" by (simp add: plain_name_def)
  have s: "a_slug edit_args = Some ''old''" by (simp add: edit_args_def)
  have e: "doc_md_path_new old_store ''old'' \<noteq> None \<or> doc_md_path_legacy old_store ''old'' \<noteq> None"
    by (simp add: store_eval old_store_def)
  have d: "doc_dir old_store ''old'' = None \<or> isdir (doc_dir old_store ''old'')"
    by (simp add: store_eval old_store_def)
  have dd: "fm_dumps lib0 = demo_dumps" by (simp add: lib0_def)
  from save_doc_edit_frame[OF p s e load_old d, of "''t1''" 9]
  have f: "snd (save_doc lib0 ''t1'' 9 old_store edit_args) = Inr ''old''
   \<and> doc_md_path_new (fst (save_doc lib0 ''t1'' 9 old_store edit_args)) ''old'' =
       Some (File 9 (demo_dumps post_edited))"
    by (simp add: Let_def merge_edit dd)
  have g: "map_of (metadata post_old) ''created_at'' = Some (Str ''t0'')
   \<and> map_of (metadata post_edited) ''created_at'' = Some (Str ''t0'')
   \<and> map_of (metadata post_edited) ''created_by'' = Some (Str ''ana'')
   \<and> map_of (metadata post_edited) ''last_edited_at'' = Some (Str ''t1'')
   \<and> map_of (metadata post_edited) ''last_edited_by'' = Some (Str ''bea'')"
    by (simp add: post_old_def post_edited_def)
  have h: "a_tags edit_args = TagsNone \<and> a_icon_url edit_args = None
   \<and> a_cover_url edit_args = None \<and> a_access_level edit_args = None
   \<and> map_of (metadata post_edited) ''tags'' = map_of (metadata post_old) ''tags''
   \<and> map_of (metadata post_edited) ''icon_url'' = map_of (metadata post_old) ''icon_url''
   \<and> map_of (metadata post_edited) ''cover_url'' = map_of (metadata post_old) ''cover_url''
   \<and> map_of (metadata post_edited) ''access_level'' = Some (Str ''d2'')"
    by (simp add: post_old_def post_edited_def edit_args_def blank_args_def)
  from p s load_old f g h show ?thesis by blast
qed

section \<open>Creation conflict and missing title\<close>










section \<open>The filters of the listing\<close>

text \<open>
  Claim C8 says that, for a non-empty requested tag set, a document is listed exactly
  when its tags, stripped and compared in lower case, meet the requested ones. Of three
  documents tagged \<open>api\<close>, \<open>guide\<close> and both, the request \<open>API\<close> lists the first and the
  third. The code departs from the claim where a legacy file stands beside the canonical
  document of the same slug: the loop over the legacy files skips the slugs already in
  the filtered results, not the slugs that have a canonical document. The document \<open>x\<close>
  is tagged \<open>guide\<close>, as \<open>read_doc\<close> and the unfiltered listing show; the request \<open>api\<close>
  lists it, with the title and the tag of the legacy file.
\<close>

theorem list_docs_lists_stale_legacy:
  "map_sum id (map s_slug) (list_docs lib0 tagged_store [] (Some ['' API '']) ''n1'')
     = Inr [''one'', ''three'']
   \<and> map_option (\<lambda>p. (post_get p ''title'' (Str []), ptags p))
        (snd (read_doc lib0 9 shadow_store ''x'')) = Some (Str ''Two'', [''guide''])
   \<and> map_sum id (map (\<lambda>d. (s_slug d, s_title d, s_tags d)))
        (list_docs lib0 shadow_store [] None ''n1'') = Inr [(''x'', Str ''Two'', [''guide''])]
   \<and> map_sum id (map (\<lambda>d. (s_slug d, s_title d, s_tags d)))
        (list_docs lib0 shadow_store [] (Some [''api'']) ''n1'') = Inr [(''x'', Str ''One'', [''api''])]"
  by code_simp

end
